theory Spec2Isabelle
  imports Main
begin

section \<open>Python values, exceptions and effects\<close>

text \<open>
  The values that travel through the two scripts are the ones \<^verbatim>\<open>json.loads\<close> builds and
  \<^verbatim>\<open>json.dumps\<close> accepts: \<^verbatim>\<open>None\<close>, booleans, integers, strings, lists and dictionaries
  with string keys. A dictionary is an association list in insertion order. Floating
  point numbers are outside the embedding.
\<close>

datatype jvalue =
    JNull
  | JBool bool
  | JInt int
  | JStr string
  | JList "jvalue list"
  | JDict "(string \<times> jvalue) list"

text \<open>
  Exceptions are values. Every class listed derives from \<^verbatim>\<open>Exception\<close>, so a clause
  \<^verbatim>\<open>except Exception\<close> catches each of them, while \<^verbatim>\<open>except json.JSONDecodeError\<close>
  catches the first class only. The string is what \<^verbatim>\<open>str(e)\<close> gives.
\<close>

datatype exc_class =
    JSONDecodeError
  | AttributeError
  | TypeError
  | KeyError
  | InvalidStateError
  | OtherException string

datatype pyexc = PyExc exc_class string


fun exc_message :: "pyexc \<Rightarrow> string" where
  "exc_message (PyExc c m) = m"

text \<open>A call either returns a value or raises.\<close>

datatype 'a outcome = Returns 'a | Raises pyexc

text \<open>
  What a handler does besides returning: log records (level and message, the message
  without its leading pictograph) and invocations of a channel's \<^verbatim>\<open>send\<close>, tagged with
  the identity of the channel object and the text handed over.
\<close>

datatype log_level = DEBUG | INFO | WARNING | ERROR

datatype effect = Log log_level string | Send nat string

fun warnings :: "effect list \<Rightarrow> string list" where
  "warnings [] = []"
| "warnings (Log WARNING m # fx) = m # warnings fx"
| "warnings (x # fx) = warnings fx"


text \<open>
  A data channel object as the server sees it: its identity, its label, the value of the
  \<^verbatim>\<open>readyState\<close> attribute (\<open>None\<close> when the object has no such attribute) and the
  behaviour of its \<^verbatim>\<open>send\<close> method on a text: \<open>None\<close> when the call returns, \<open>Some e\<close>
  when it raises \<open>e\<close>.
\<close>

record channel =
  ident :: nat
  label :: string
  readyState :: "string option"
  send :: "string \<Rightarrow> pyexc option"

text \<open>
  \<^verbatim>\<open>MockRTCDataChannel\<close>: ready state \<^verbatim>\<open>'open'\<close>, label \<^verbatim>\<open>'test'\<close>, and a \<^verbatim>\<open>send\<close> that only
  logs and returns.
\<close>

definition MockRTCDataChannel :: "nat \<Rightarrow> channel" where
  "MockRTCDataChannel i =
     \<lparr>ident = i, label = ''test'', readyState = Some ''open'', send = (\<lambda>data. None)\<rparr>"

text \<open>
  The functions of the Python library the scripts call are parameters of the model:
  \<^verbatim>\<open>json.dumps\<close> (which returns on every value of type \<^typ>\<open>jvalue\<close>), \<^verbatim>\<open>json.loads\<close> on a
  text (which returns the decoded value or raises), the conversion \<^verbatim>\<open>str(v)\<close> that an
  f-string applies to a value, and \<^verbatim>\<open>repr(v)\<close>.
\<close>

record pylib =
  dumps :: "jvalue \<Rightarrow> string"
  loads :: "string \<Rightarrow> pyexc + jvalue"
  str_of :: "jvalue \<Rightarrow> string"
  repr_of :: "jvalue \<Rightarrow> string"

text \<open>
  A small stand-in for the library in the worked examples. Its encoder gives \<^verbatim>\<open>{}\<close> for
  the empty dictionary and, to stay small, \<^verbatim>\<open>null\<close> for every other value; its decoder
  knows these two texts and rejects every other text.
\<close>

definition example_lib :: pylib where
  "example_lib =
     \<lparr>dumps = (\<lambda>v. if v = JDict [] then ''{}'' else ''null''),
      loads = (\<lambda>t. if t = ''{}'' then Inr (JDict [])
                   else if t = ''null'' then Inr JNull
                   else Inl (PyExc JSONDecodeError ''Expecting value: line 1 column 1 (char 0)'')),
      str_of = (\<lambda>v. case v of JStr s \<Rightarrow> s | _ \<Rightarrow> ''?''),
      repr_of = (\<lambda>v. case v of JStr s \<Rightarrow> [CHR 0x27] @ s @ [CHR 0x27] | _ \<Rightarrow> ''?'')\<rparr>"

section \<open>The send guard\<close>

text \<open>
  \<^verbatim>\<open>safe_channel_send(channel, message_data, message_type)\<close>. The three guards come first,
  each with its warning; then the \<^verbatim>\<open>try\<close> block: a string is sent as it is, anything else
  goes through \<^verbatim>\<open>json.dumps\<close>; \<^verbatim>\<open>except Exception\<close> turns a raising \<^verbatim>\<open>send\<close> into the
  result \<^verbatim>\<open>False\<close>.
\<close>

definition safe_channel_send ::
  "pylib \<Rightarrow> channel option \<Rightarrow> jvalue \<Rightarrow> string \<Rightarrow> bool outcome \<times> effect list" where
  "safe_channel_send L chan message_data message_type =
     (case chan of
        None \<Rightarrow>
          (Returns False,
           [Log WARNING (''Cannot send '' @ message_type @ '': channel is None'')])
      | Some ch \<Rightarrow>
          (case readyState ch of
             None \<Rightarrow>
               (Returns False,
                [Log WARNING (''Cannot send '' @ message_type
                              @ '': channel has no readyState attribute'')])
           | Some st \<Rightarrow>
               if st \<noteq> ''open'' then
                 (Returns False,
                  [Log WARNING (''Cannot send '' @ message_type @ '': channel state is ''
                                @ [CHR 0x27] @ st @ [CHR 0x27] @ '', expected ''
                                @ [CHR 0x27] @ ''open'' @ [CHR 0x27])])
               else
                 let text = (case message_data of JStr s \<Rightarrow> s | _ \<Rightarrow> dumps L message_data)
                 in (case send ch text of
                       None \<Rightarrow>
                         (Returns True,
                          [Send (ident ch) text,
                           Log INFO (''Successfully sent '' @ message_type)])
                     | Some e \<Rightarrow>
                         (Returns False,
                          [Send (ident ch) text,
                           Log ERROR (''Failed to send '' @ message_type @ '': ''
                                      @ exc_message e)]))))"

section \<open>Dictionaries keyed by session id\<close>

text \<open>
  A session id is whatever \<^verbatim>\<open>data.get('webrtc_id', ...)\<close> returned, used as a dictionary
  key. Python accepts the hashable values as keys and raises \<^verbatim>\<open>TypeError\<close> on a list or a
  dictionary; two keys are the same entry when they compare equal, and \<^verbatim>\<open>True == 1\<close>,
  \<^verbatim>\<open>False == 0\<close>.
\<close>

datatype key = KNone | KBool bool | KInt int | KStr string

fun as_key :: "jvalue \<Rightarrow> key option" where
  "as_key JNull = Some KNone"
| "as_key (JBool b) = Some (KBool b)"
| "as_key (JInt i) = Some (KInt i)"
| "as_key (JStr s) = Some (KStr s)"
| "as_key (JList xs) = None"
| "as_key (JDict kvs) = None"

fun key_value :: "key \<Rightarrow> jvalue" where
  "key_value KNone = JNull"
| "key_value (KBool b) = JBool b"
| "key_value (KInt i) = JInt i"
| "key_value (KStr s) = JStr s"

fun key_num :: "key \<Rightarrow> key" where
  "key_num (KBool b) = KInt (if b then 1 else 0)"
| "key_num k = k"

definition key_eq :: "key \<Rightarrow> key \<Rightarrow> bool" where
  "key_eq a b = (key_num a = key_num b)"

fun type_name :: "jvalue \<Rightarrow> string" where
  "type_name JNull = ''NoneType''"
| "type_name (JBool b) = ''bool''"
| "type_name (JInt i) = ''int''"
| "type_name (JStr s) = ''str''"
| "type_name (JList xs) = ''list''"
| "type_name (JDict kvs) = ''dict''"

definition unhashable :: "jvalue \<Rightarrow> pyexc" where
  "unhashable v =
     PyExc TypeError (''unhashable type: '' @ [CHR 0x27] @ type_name v @ [CHR 0x27])"

text \<open>
  A Python \<^verbatim>\<open>dict\<close> in insertion order: \<^verbatim>\<open>k in d\<close>, \<^verbatim>\<open>d[k]\<close>, \<^verbatim>\<open>d[k] = v\<close> (an existing
  entry keeps its place and its key object, a new one goes to the end), \<^verbatim>\<open>del d[k]\<close>
  (\<open>None\<close> where Python raises \<^verbatim>\<open>KeyError\<close>) and \<^verbatim>\<open>len(d)\<close>.
\<close>

type_synonym 'a pydict = "(key \<times> 'a) list"

fun dict_contains :: "key \<Rightarrow> 'a pydict \<Rightarrow> bool" where
  "dict_contains k [] = False"
| "dict_contains k ((k', v) # d) = (key_eq k' k \<or> dict_contains k d)"

fun dict_get :: "key \<Rightarrow> 'a pydict \<Rightarrow> 'a option" where
  "dict_get k [] = None"
| "dict_get k ((k', v) # d) = (if key_eq k' k then Some v else dict_get k d)"

fun dict_set :: "key \<Rightarrow> 'a \<Rightarrow> 'a pydict \<Rightarrow> 'a pydict" where
  "dict_set k v [] = [(k, v)]"
| "dict_set k v ((k', v') # d) =
     (if key_eq k' k then (k', v) # d else (k', v') # dict_set k v d)"

fun dict_del :: "key \<Rightarrow> 'a pydict \<Rightarrow> 'a pydict option" where
  "dict_del k [] = None"
| "dict_del k ((k', v) # d) =
     (if key_eq k' k then Some d
      else (case dict_del k d of None \<Rightarrow> None | Some d' \<Rightarrow> Some ((k', v) # d')))"

definition dict_len :: "'a pydict \<Rightarrow> nat" where
  "dict_len d = length d"

text \<open>
  The dictionaries the server builds never hold two entries for one key: they start empty
  and change through \<open>dict_set\<close> and \<open>dict_del\<close> only.
\<close>

fun dict_wf :: "'a pydict \<Rightarrow> bool" where
  "dict_wf [] = True"
| "dict_wf ((k, v) # d) = (\<not> dict_contains k d \<and> dict_wf d)"

text \<open>
  \<^verbatim>\<open>v.get(name, default)\<close>: defined on dictionaries; any other value has no attribute
  \<^verbatim>\<open>get\<close>. \<^verbatim>\<open>bool(v)\<close> is the truth value an \<^verbatim>\<open>if\<close> or an \<^verbatim>\<open>and\<close> takes.
\<close>

definition no_attribute :: "jvalue \<Rightarrow> string \<Rightarrow> pyexc" where
  "no_attribute v name =
     PyExc AttributeError ([CHR 0x27] @ type_name v @ [CHR 0x27] @ '' object has no attribute ''
                           @ [CHR 0x27] @ name @ [CHR 0x27])"

fun py_get :: "jvalue \<Rightarrow> string \<Rightarrow> jvalue \<Rightarrow> pyexc + jvalue" where
  "py_get (JDict kvs) name dflt = Inr (case map_of kvs name of Some v \<Rightarrow> v | None \<Rightarrow> dflt)"
| "py_get v name dflt = Inl (no_attribute v ''get'')"

fun truthy :: "jvalue \<Rightarrow> bool" where
  "truthy JNull = False"
| "truthy (JBool b) = b"
| "truthy (JInt i) = (i \<noteq> 0)"
| "truthy (JStr s) = (s \<noteq> [])"
| "truthy (JList xs) = (xs \<noteq> [])"
| "truthy (JDict kvs) = (kvs \<noteq> [])"

section \<open>The test server\<close>

text \<open>
  \<^verbatim>\<open>WebRTCTestServer\<close> holds two dictionaries, \<^verbatim>\<open>connections\<close> and \<^verbatim>\<open>data_channels\<close>, both
  empty at construction. A peer connection is opaque to the server; only its kind is kept.
\<close>

datatype peer_connection = RTCPeerConnection | MockRTCPeerConnection

record server =
  connections :: "peer_connection pydict"
  data_channels :: "channel pydict"

definition WebRTCTestServer :: server where
  "WebRTCTestServer = \<lparr>connections = [], data_channels = []\<rparr>"

text \<open>
  What a handler reads from outside the server object when it runs: the library, the flag
  \<^verbatim>\<open>AIORTC_AVAILABLE\<close>, the value of \<^verbatim>\<open>str(uuid.uuid4())\<close> and of
  \<^verbatim>\<open>datetime.now().isoformat()\<close> at this call, the content of
  \<^verbatim>\<open>webrtc_debug_enhanced.html\<close> if the file exists, and the WebRTC engine: building the
  session description from the offer's \<^verbatim>\<open>sdp\<close> and \<^verbatim>\<open>type\<close>, \<^verbatim>\<open>setRemoteDescription\<close>,
  \<^verbatim>\<open>createAnswer\<close> and \<^verbatim>\<open>setLocalDescription\<close> either give the answer's type and sdp or
  raise.
\<close>

record env =
  lib :: pylib
  AIORTC_AVAILABLE :: bool
  uuid4 :: string
  now :: string
  debug_page :: "string option"
  negotiate :: "jvalue \<Rightarrow> jvalue \<Rightarrow> pyexc + (string \<times> string)"

text \<open>
  An HTTP request as the handlers use it: \<^verbatim>\<open>request.content_type\<close> and the outcome of
  \<^verbatim>\<open>await request.json()\<close>. A response: status, content type, and the body, which is the
  debug page read from the file, the built-in HTML page, or the text \<^verbatim>\<open>json.dumps\<close>
  makes of a value (kept as the value, whatever the indentation asked for).
\<close>

record request =
  req_content_type :: string
  req_json :: "pyexc + jvalue"

datatype content = DebugPage string | FallbackPage | Json jvalue

record response =
  status :: nat
  content_type :: string
  body :: content

definition json_response :: "nat \<Rightarrow> jvalue \<Rightarrow> response" where
  "json_response st v = \<lparr>status = st, content_type = ''application/json'', body = Json v\<rparr>"

text \<open>\<^verbatim>\<open>handle_index\<close>: the debug page if the file can be opened, the built-in page otherwise.\<close>

definition handle_index :: "env \<Rightarrow> response" where
  "handle_index E =
     (case debug_page E of
        Some page \<Rightarrow> \<lparr>status = 200, content_type = ''text/html'', body = DebugPage page\<rparr>
      | None \<Rightarrow> \<lparr>status = 200, content_type = ''text/html'', body = FallbackPage\<rparr>)"

text \<open>\<^verbatim>\<open>handle_config\<close>: a fixed configuration with the time of the call.\<close>

definition handle_config :: "env \<Rightarrow> response \<times> effect list" where
  "handle_config E =
     (json_response 200
        (JDict
          [(''rtc_configuration'',
            JDict
              [(''iceServers'',
                JList [JDict [(''urls'', JStr ''stun:stun.l.google.com:19302'')],
                       JDict [(''urls'', JStr ''stun:stun1.l.google.com:19302'')]]),
               (''bundlePolicy'', JStr ''balanced''),
               (''iceCandidatePoolSize'', JInt 10),
               (''iceTransportPolicy'', JStr ''all'')]),
           (''server_info'',
            JDict
              [(''name'', JStr ''WebRTC Test Server''),
               (''version'', JStr ''1.0.0''),
               (''datachannel_fixes'', JStr ''enabled''),
               (''timestamp'', JStr (now E))])]),
      [Log INFO ''Configuration requested''])"

text \<open>
  \<^verbatim>\<open>handle_webrtc_offer\<close>. Everything runs inside \<^verbatim>\<open>try\<close>; \<^verbatim>\<open>except Exception\<close> answers with
  status 500 and the text of the exception. The peer connection is stored in
  \<^verbatim>\<open>connections\<close> before anything is negotiated. Without aiortc the decorator of
  \<^verbatim>\<open>on_datachannel\<close> is \<^verbatim>\<open>lambda: None\<close>, a function of no argument applied to one argument:
  that application raises \<^verbatim>\<open>TypeError\<close>, so the mock answer further down is never reached.
\<close>

definition offer_failed ::
  "pyexc \<Rightarrow> server \<Rightarrow> effect list \<Rightarrow> response \<times> server \<times> effect list" where
  "offer_failed e s fx =
     (json_response 500 (JDict [(''error'', JStr (exc_message e))]), s,
      fx @ [Log ERROR (''Error handling WebRTC offer: '' @ exc_message e)])"

definition handle_webrtc_offer ::
  "env \<Rightarrow> request \<Rightarrow> server \<Rightarrow> response \<times> server \<times> effect list" where
  "handle_webrtc_offer E req s =
     (case req_json req of
        Inl e \<Rightarrow> offer_failed e s []
      | Inr data \<Rightarrow>
          (case py_get data ''webrtc_id'' (JStr (uuid4 E)) of
             Inl e \<Rightarrow> offer_failed e s []
           | Inr webrtc_id \<Rightarrow>
               (case py_get data ''sdp'' JNull of
                  Inl e \<Rightarrow> offer_failed e s []
                | Inr offer_sdp \<Rightarrow>
                    (case py_get data ''type'' JNull of
                       Inl e \<Rightarrow> offer_failed e s []
                     | Inr offer_type \<Rightarrow>
                         let fx = [Log INFO (''Received WebRTC offer for session ''
                                             @ str_of (lib E) webrtc_id)];
                             pc = (if AIORTC_AVAILABLE E then RTCPeerConnection
                                   else MockRTCPeerConnection)
                         in (case as_key webrtc_id of
                               None \<Rightarrow> offer_failed (unhashable webrtc_id) s fx
                             | Some k \<Rightarrow>
                                 let s' = s\<lparr>connections := dict_set k pc (connections s)\<rparr>
                                 in if \<not> AIORTC_AVAILABLE E then
                                      offer_failed
                                        (PyExc TypeError
                                           ''<lambda>() takes 0 positional arguments but 1 was given'')
                                        s' fx
                                    else
                                      (case negotiate E offer_sdp offer_type of
                                         Inl e \<Rightarrow> offer_failed e s' fx
                                       | Inr (answer_type, answer_sdp) \<Rightarrow>
                                           (json_response 200
                                              (JDict [(''type'', JStr answer_type),
                                                      (''sdp'', JStr answer_sdp)]),
                                            s',
                                            fx @ [Log INFO (''Created answer for session ''
                                                            @ str_of (lib E) webrtc_id)])))))))"

text \<open>
  The callbacks \<^verbatim>\<open>handle_webrtc_offer\<close> registers close over the session id \<^verbatim>\<open>webrtc_id\<close>,
  which was accepted as a key of \<^verbatim>\<open>connections\<close>, and over the channel.

  \<^verbatim>\<open>on_datachannel\<close> logs at level INFO and stores the channel under the session id.
\<close>

definition on_datachannel :: "key \<Rightarrow> channel \<Rightarrow> server \<Rightarrow> server \<times> effect list" where
  "on_datachannel webrtc_id ch s =
     (s\<lparr>data_channels := dict_set webrtc_id ch (data_channels s)\<rparr>,
      [Log INFO (''DataChannel established: '' @ label ch)])"

definition on_open :: "pylib \<Rightarrow> key \<Rightarrow> channel \<Rightarrow> effect list" where
  "on_open L webrtc_id ch =
     Log INFO (''DataChannel opened for '' @ str_of L (key_value webrtc_id))
     # snd (safe_channel_send L (Some ch)
              (JDict [(''type'', JStr ''server_ready''),
                      (''message'', JStr ''DataChannel connection established!'')])
              ''welcome message'')"




text \<open>\<^verbatim>\<open>on_close\<close> deletes the session's entry of \<^verbatim>\<open>data_channels\<close> if there is one.\<close>

definition on_close ::
  "pylib \<Rightarrow> key \<Rightarrow> server \<Rightarrow> unit outcome \<times> server \<times> effect list" where
  "on_close L webrtc_id s =
     (if dict_contains webrtc_id (data_channels s) then
        (case dict_del webrtc_id (data_channels s) of
           None \<Rightarrow>
             (Raises (PyExc KeyError (repr_of L (key_value webrtc_id))), s,
              [Log INFO (''DataChannel closed for '' @ str_of L (key_value webrtc_id))])
         | Some d \<Rightarrow>
             (Returns (), s\<lparr>data_channels := d\<rparr>,
              [Log INFO (''DataChannel closed for '' @ str_of L (key_value webrtc_id))]))
      else
        (Returns (), s,
         [Log INFO (''DataChannel closed for '' @ str_of L (key_value webrtc_id))]))"










text \<open>\<^verbatim>\<open>handle_status\<close> reports the sizes of the two dictionaries and the session ids.\<close>

definition handle_status :: "env \<Rightarrow> server \<Rightarrow> response" where
  "handle_status E s =
     json_response 200
       (JDict [(''server'', JStr ''WebRTC Test Server''),
               (''status'', JStr ''running''),
               (''connections'', JInt (int (dict_len (connections s)))),
               (''data_channels'', JInt (int (dict_len (data_channels s)))),
               (''aiortc_available'', JBool (AIORTC_AVAILABLE E)),
               (''datachannel_fixes'', JStr ''enabled''),
               (''active_sessions'', JList (map (\<lambda>(k, ch). key_value k) (data_channels s))),
               (''timestamp'', JStr (now E))])"

definition status_connections :: "env \<Rightarrow> server \<Rightarrow> jvalue option" where
  "status_connections E s =
     (case body (handle_status E s) of
        Json (JDict kvs) \<Rightarrow> map_of kvs ''connections''
      | _ \<Rightarrow> None)"

text \<open>
  Everything that can happen to a running server: a request on one of its routes, or one
  of the callbacks registered for a session. Each occurrence comes with the environment it
  runs in.
\<close>

datatype event =
    GetIndex
  | GetDebug
  | GetConfig
  | PostOffer request
  | Test request
  | GetStatus
  | DataChannel key channel
  | ChannelOpen key channel
  | ChannelMessage channel string
  | ChannelClose key

fun step :: "server \<Rightarrow> env \<times> event \<Rightarrow> server" where
  "step s (E, GetIndex) = s"
| "step s (E, GetDebug) = s"
| "step s (E, GetConfig) = s"
| "step s (E, PostOffer req) = fst (snd (handle_webrtc_offer E req s))"
| "step s (E, Test req) = s"
| "step s (E, GetStatus) = s"
| "step s (E, DataChannel k ch) = fst (on_datachannel k ch s)"
| "step s (E, ChannelOpen k ch) = s"
| "step s (E, ChannelMessage ch message) = s"
| "step s (E, ChannelClose k) = fst (snd (on_close (lib E) k s))"

definition run :: "server \<Rightarrow> (env \<times> event) list \<Rightarrow> server" where
  "run s evs = foldl step s evs"

text \<open>
  An environment for the worked examples: aiortc is present, and the engine answers an
  offer of type \<^verbatim>\<open>"offer"\<close> and rejects anything else.
\<close>

definition example_env :: env where
  "example_env =
     \<lparr>lib = example_lib, AIORTC_AVAILABLE = True, uuid4 = ''0b5c'',
      now = ''2024-01-01T00:00:00'', debug_page = None,
      negotiate = (\<lambda>sdp ty. if ty = JStr ''offer'' then Inr (''answer'', ''v=0'')
                            else Inl (PyExc (OtherException ''ValueError'') ''bad offer''))\<rparr>"

section \<open>The diagnostic client\<close>

text \<open>
  \<^verbatim>\<open>diagnose_webrtc_issues\<close> awaits the probes in turn. What each probe does depends on the
  server under test and is given by its outcome: \<^verbatim>\<open>test_server_connectivity\<close> and
  \<^verbatim>\<open>test_webrtc_offer_endpoint\<close> return a boolean, \<^verbatim>\<open>test_config_endpoint\<close> the decoded
  configuration or \<^verbatim>\<open>None\<close> (all three catch their own exceptions), and
  \<^verbatim>\<open>check_common_issues\<close>, which has no handler of its own, returns or raises on the
  configuration it is given. The trace records which probes were started and the lines
  \<^verbatim>\<open>diagnose_webrtc_issues\<close> itself logs.
\<close>

datatype probe = ServerConnectivity | ConfigEndpoint | WebRTCOfferEndpoint | CommonIssues

record probes =
  test_server_connectivity :: bool
  test_config_endpoint :: jvalue
  test_webrtc_offer_endpoint :: bool
  check_common_issues :: "jvalue \<Rightarrow> pyexc option"

datatype client_effect = Started probe | ClientLog log_level string

fun started :: "client_effect list \<Rightarrow> probe list" where
  "started [] = []"
| "started (Started p # fx) = p # started fx"
| "started (x # fx) = started fx"

definition diagnose_webrtc_issues :: "probes \<Rightarrow> unit outcome \<times> client_effect list" where
  "diagnose_webrtc_issues P =
     (if \<not> test_server_connectivity P then
        (Returns (),
         [ClientLog INFO ''Starting WebRTC diagnostics...'',
          Started ServerConnectivity,
          ClientLog ERROR ''Server connectivity failed - cannot proceed with other tests''])
      else if \<not> truthy (test_config_endpoint P) then
        (Returns (),
         [ClientLog INFO ''Starting WebRTC diagnostics...'',
          Started ServerConnectivity,
          Started ConfigEndpoint,
          ClientLog ERROR
            (''Configuration test failed - WebRTC likely won'' @ [CHR 0x27] @ ''t work'')])
      else
        let fx = [ClientLog INFO ''Starting WebRTC diagnostics...'',
                  Started ServerConnectivity,
                  Started ConfigEndpoint,
                  Started WebRTCOfferEndpoint]
                 @ (if \<not> test_webrtc_offer_endpoint P
                    then [ClientLog ERROR ''WebRTC offer endpoint test failed'']
                    else [])
                 @ [Started CommonIssues]
        in (case check_common_issues P (test_config_endpoint P) of
              Some e \<Rightarrow> (Raises e, fx)
            | None \<Rightarrow> (Returns (), fx @ [ClientLog INFO ''Diagnostics complete!''])))"

section \<open>The worked examples' fixtures\<close>

lemma MockRTCDataChannel_simps [simp]:
  "ident (MockRTCDataChannel i) = i"
  "label (MockRTCDataChannel i) = ''test''"
  "readyState (MockRTCDataChannel i) = Some ''open''"
  "send (MockRTCDataChannel i) t = None"
  by (simp_all add: MockRTCDataChannel_def)

lemma example_lib_simps [simp]:
  "dumps example_lib v = (if v = JDict [] then ''{}'' else ''null'')"
  "loads example_lib t = (if t = ''{}'' then Inr (JDict [])
                          else if t = ''null'' then Inr JNull
                          else Inl (PyExc JSONDecodeError ''Expecting value: line 1 column 1 (char 0)''))"
  "str_of example_lib (JStr s) = s"
  by (simp_all add: example_lib_def)

lemma example_env_simps [simp]:
  "lib example_env = example_lib"
  "AIORTC_AVAILABLE example_env"
  "uuid4 example_env = ''0b5c''"
  "now example_env = ''2024-01-01T00:00:00''"
  "negotiate example_env sdp ty =
     (if ty = JStr ''offer'' then Inr (''answer'', ''v=0'')
      else Inl (PyExc (OtherException ''ValueError'') ''bad offer''))"
  by (simp_all add: example_env_def)

section \<open>Properties of the dictionaries\<close>

lemma key_eq_refl [simp]: "key_eq k k"
  by (simp add: key_eq_def)

lemma dict_contains_cong: "key_eq a b \<Longrightarrow> dict_contains a d = dict_contains b d"
  by (induction d) (auto simp: key_eq_def)


lemma dict_set_len: "length d \<le> length (dict_set k v d)"
  by (induction d) auto

lemma dict_set_len_same: "dict_get k d = Some old \<Longrightarrow> length (dict_set k v d) = length d"
  by (induction d) (auto split: if_splits)

lemma dict_set_contains:
  "dict_contains k' (dict_set k v d) \<longleftrightarrow> key_eq k k' \<or> dict_contains k' d"
  by (induction d) (auto simp: key_eq_def split: if_splits)

lemma dict_set_get: "dict_get k (dict_set k v d) = Some v"
  by (induction d) auto

lemma dict_set_wf: "dict_wf d \<Longrightarrow> dict_wf (dict_set k v d)"
  by (induction d) (auto simp: dict_set_contains key_eq_def)

lemma dict_del_None: "dict_del k d = None \<longleftrightarrow> \<not> dict_contains k d"
  by (induction d) (auto split: option.splits if_splits)

lemma dict_del_contains:
  "dict_del k d = Some d' \<Longrightarrow> dict_contains j d' \<Longrightarrow> dict_contains j d"
  by (induction d arbitrary: d') (auto split: option.splits if_splits)

lemma dict_del_not_contains:
  "dict_wf d \<Longrightarrow> dict_del k d = Some d' \<Longrightarrow> \<not> dict_contains k d'"
  by (induction d arbitrary: d')
     (auto split: option.splits if_splits simp: key_eq_def
           dest: dict_contains_cong[unfolded key_eq_def])

lemma dict_del_wf: "dict_wf d \<Longrightarrow> dict_del k d = Some d' \<Longrightarrow> dict_wf d'"
  by (induction d arbitrary: d')
     (fastforce split: option.splits if_splits dest: dict_del_contains)+

section \<open>Properties of the server\<close>










lemma offer_failed_server [simp]: "fst (snd (offer_failed e s fx)) = s"
  by (simp add: offer_failed_def)

lemma offer_failed_status [simp]: "status (fst (offer_failed e s fx)) = 500"
  by (simp add: offer_failed_def json_response_def)

lemma handle_webrtc_offer_connections:
  "connections (fst (snd (handle_webrtc_offer E req s))) = connections s
   \<or> (\<exists>k pc. connections (fst (snd (handle_webrtc_offer E req s)))
                = dict_set k pc (connections s))"
  by (auto simp: handle_webrtc_offer_def Let_def split: sum.splits option.splits prod.splits)

lemma handle_webrtc_offer_data_channels:
  "data_channels (fst (snd (handle_webrtc_offer E req s))) = data_channels s"
  by (auto simp: handle_webrtc_offer_def Let_def split: sum.splits option.splits prod.splits)

lemma on_close_connections: "connections (fst (snd (on_close L k s))) = connections s"
  by (simp add: on_close_def split: option.splits)

lemma step_connections:
  "connections (step s (E, ev)) = connections s
   \<or> (\<exists>k pc. connections (step s (E, ev)) = dict_set k pc (connections s))"
proof (cases ev)
  case (PostOffer req)
  then show ?thesis using handle_webrtc_offer_connections[of E req s] by simp
qed (simp_all add: on_close_connections on_datachannel_def)

lemma step_connections_len: "dict_len (connections s) \<le> dict_len (connections (step s x))"
  using step_connections[of s "fst x" "snd x"]
  by (auto simp: dict_len_def dict_set_len)

lemma step_connections_keys:
  "dict_contains k (connections s) \<Longrightarrow> dict_contains k (connections (step s x))"
  using step_connections[of s "fst x" "snd x"]
  by (auto simp: dict_set_contains)

lemma run_connections_len: "dict_len (connections s) \<le> dict_len (connections (run s evs))"
  unfolding run_def
proof (induction evs arbitrary: s)
  case Nil
  show ?case by simp
next
  case (Cons x evs)
  have "dict_len (connections s) \<le> dict_len (connections (step s x))"
    by (rule step_connections_len)
  also have "\<dots> \<le> dict_len (connections (foldl step (step s x) evs))"
    by (rule Cons.IH)
  finally show ?case by simp
qed

lemma run_connections_keys:
  "dict_contains k (connections s) \<Longrightarrow> dict_contains k (connections (run s evs))"
  unfolding run_def
  by (induction evs arbitrary: s) (auto intro: step_connections_keys)

lemma status_connections_eq:
  "status_connections E s = Some (JInt (int (dict_len (connections s))))"
  by (simp add: status_connections_def handle_status_def json_response_def)

lemma offer_entry_remains:
  assumes "req_json req = Inr (JDict kvs)"
    and "as_key (case map_of kvs ''webrtc_id'' of Some v \<Rightarrow> v | None \<Rightarrow> JStr (uuid4 E)) = Some k"
    and "\<not> AIORTC_AVAILABLE E
         \<or> (\<exists>e. negotiate E (case map_of kvs ''sdp'' of Some v \<Rightarrow> v | None \<Rightarrow> JNull)
                             (case map_of kvs ''type'' of Some v \<Rightarrow> v | None \<Rightarrow> JNull) = Inl e)"
  shows "status (fst (handle_webrtc_offer E req s)) = 500
       \<and> dict_contains k (connections (fst (snd (handle_webrtc_offer E req s))))"
  using assms
  by (auto simp: handle_webrtc_offer_def Let_def dict_set_contains)

text \<open>
  Both dictionaries hold at most one entry per key in every state the server reaches from
  its initial state.
\<close>

lemma step_wf:
  assumes wf: "dict_wf (connections s) \<and> dict_wf (data_channels s)"
  shows "dict_wf (connections (step s x)) \<and> dict_wf (data_channels (step s x))"
proof -
  obtain E ev where x: "x = (E, ev)" by (cases x)
  have c: "dict_wf (connections (step s (E, ev)))"
    using step_connections[of s E ev] wf by (auto simp: dict_set_wf)
  have d: "dict_wf (data_channels (step s (E, ev)))"
  proof (cases ev)
    case (PostOffer req)
    then show ?thesis using wf by (simp add: handle_webrtc_offer_data_channels)
  next
    case (DataChannel k ch)
    then show ?thesis using wf by (simp add: on_datachannel_def dict_set_wf)
  next
    case (ChannelClose k)
    then show ?thesis using wf
      by (auto simp: on_close_def split: option.splits dest: dict_del_wf)
  qed (simp_all add: wf)
  show ?thesis using c d x by simp
qed

lemma run_wf:
  "dict_wf (connections s) \<and> dict_wf (data_channels s)
   \<Longrightarrow> dict_wf (connections (run s evs)) \<and> dict_wf (data_channels (run s evs))"
  unfolding run_def
proof (induction evs arbitrary: s)
  case Nil
  then show ?case by simp
next
  case (Cons x evs)
  from Cons.prems have "dict_wf (connections (step s x)) \<and> dict_wf (data_channels (step s x))"
    by (rule step_wf)
  then show ?case using Cons.IH by simp
qed

lemma reachable_wf:
  "dict_wf (connections (run WebRTCTestServer evs))
   \<and> dict_wf (data_channels (run WebRTCTestServer evs))"
  by (rule run_wf) (simp add: WebRTCTestServer_def)

section \<open>Properties of the send guard\<close>

text \<open>
  C1. Whenever the handle is absent, or has no \<^verbatim>\<open>readyState\<close> attribute, or its
  \<^verbatim>\<open>readyState\<close> differs from \<^verbatim>\<open>"open"\<close>, \<^verbatim>\<open>safe_channel_send\<close> returns \<^verbatim>\<open>False\<close> for every
  payload, logs exactly one warning, and never invokes the handle's \<^verbatim>\<open>send\<close>.
\<close>

theorem safe_channel_send_fails_closed:
  assumes "chan = None
           \<or> (\<exists>ch. chan = Some ch \<and> readyState ch = None)
           \<or> (\<exists>ch st. chan = Some ch \<and> readyState ch = Some st \<and> st \<noteq> ''open'')"
  shows "fst (safe_channel_send L chan payload mt) = Returns False
         \<and> (\<exists>m. snd (safe_channel_send L chan payload mt) = [Log WARNING m])
         \<and> (\<forall>i t. Send i t \<notin> set (snd (safe_channel_send L chan payload mt)))"
  using assms by (auto simp: safe_channel_send_def)

theorem safe_channel_send_fails_closed_witness:
  "fst (safe_channel_send example_lib
          (Some \<lparr>ident = 7, label = ''chat'', readyState = Some ''connecting'',
                 send = (\<lambda>t. None)\<rparr>)
          (JDict [(''type'', JStr ''chat''), (''data'', JStr ''hi'')]) ''chat response'')
     = Returns False
   \<and> (\<forall>i t. Send i t \<notin> set (snd (safe_channel_send
          example_lib
          (Some \<lparr>ident = 7, label = ''chat'', readyState = Some ''connecting'',
                 send = (\<lambda>t. None)\<rparr>)
          (JDict [(''type'', JStr ''chat''), (''data'', JStr ''hi'')]) ''chat response'')))"
  using safe_channel_send_fails_closed
    [of "Some \<lparr>ident = 7, label = ''chat'', readyState = Some ''connecting'',
                send = (\<lambda>t. None)\<rparr>"
        "example_lib"
        "JDict [(''type'', JStr ''chat''), (''data'', JStr ''hi'')]" "''chat response''"]
  by simp

text \<open>
  C2. \<^verbatim>\<open>safe_channel_send\<close> never raises, whatever the handle and the payload; and when the
  handle's \<^verbatim>\<open>send\<close> is invoked on a text and raises \<open>e\<close>, the result is \<^verbatim>\<open>False\<close> and
  the error is logged with the text of \<open>e\<close>.
\<close>

theorem safe_channel_send_contains_transport_failure:
  "(\<forall>e. fst (safe_channel_send L chan payload mt) \<noteq> Raises e)
   \<and> (\<forall>ch t e. chan = Some ch
          \<and> Send (ident ch) t \<in> set (snd (safe_channel_send L chan payload mt))
          \<and> send ch t = Some e
        \<longrightarrow> fst (safe_channel_send L chan payload mt) = Returns False
            \<and> Log ERROR (''Failed to send '' @ mt @ '': '' @ exc_message e)
                \<in> set (snd (safe_channel_send L chan payload mt)))"
  by (auto simp: safe_channel_send_def Let_def split: option.splits)

theorem safe_channel_send_contains_transport_failure_witness:
  "safe_channel_send example_lib
      (Some \<lparr>ident = 3, label = ''chat'', readyState = Some ''open'',
             send = (\<lambda>t. Some (PyExc InvalidStateError ''closed''))\<rparr>)
      (JStr ''hi'') ''ping''
   = (Returns False, [Send 3 ''hi'', Log ERROR ''Failed to send ping: closed''])"
  using safe_channel_send_contains_transport_failure
    [of "example_lib"
        "Some \<lparr>ident = 3, label = ''chat'', readyState = Some ''open'',
                send = (\<lambda>t. Some (PyExc InvalidStateError ''closed''))\<rparr>"
        "JStr ''hi''" "''ping''"]
  by (simp add: safe_channel_send_def)




text \<open>
  C4. Closing is idempotent on the registry: in a state whose \<^verbatim>\<open>data_channels\<close> holds at
  most one entry per key (every reachable state, by \<open>reachable_wf\<close>), \<^verbatim>\<open>on_close\<close> returns
  without raising, running it a second time leaves the state the first run produced, and
  for a session id that is not registered it changes nothing.
\<close>

theorem on_close_idempotent:
  assumes "dict_wf (data_channels s)"
  shows "fst (on_close L k s) = Returns ()
       \<and> fst (on_close L k (fst (snd (on_close L k s)))) = Returns ()
       \<and> fst (snd (on_close L k (fst (snd (on_close L k s))))) = fst (snd (on_close L k s))
       \<and> (\<not> dict_contains k (data_channels s) \<longrightarrow> fst (snd (on_close L k s)) = s)"
proof (cases "dict_contains k (data_channels s)")
  case False
  then show ?thesis by (simp add: on_close_def)
next
  case True
  then obtain d where d: "dict_del k (data_channels s) = Some d"
    using dict_del_None[of k "data_channels s"] by (cases "dict_del k (data_channels s)") auto
  have "\<not> dict_contains k d" using assms d by (rule dict_del_not_contains)
  then show ?thesis using True d by (simp add: on_close_def)
qed

theorem on_close_idempotent_witness:
  "map fst (data_channels (fst (snd (on_close example_lib (KStr ''a'')
      \<lparr>connections = [(KStr ''a'', RTCPeerConnection), (KStr ''b'', RTCPeerConnection)],
       data_channels = [(KStr ''a'', MockRTCDataChannel 1),
                        (KStr ''b'', MockRTCDataChannel 2)]\<rparr>)))) = [KStr ''b'']
   \<and> fst (snd (on_close example_lib (KStr ''a'') (fst (snd (on_close example_lib (KStr ''a'')
      \<lparr>connections = [(KStr ''a'', RTCPeerConnection), (KStr ''b'', RTCPeerConnection)],
       data_channels = [(KStr ''a'', MockRTCDataChannel 1),
                        (KStr ''b'', MockRTCDataChannel 2)]\<rparr>)))))
     = fst (snd (on_close example_lib (KStr ''a'')
      \<lparr>connections = [(KStr ''a'', RTCPeerConnection), (KStr ''b'', RTCPeerConnection)],
       data_channels = [(KStr ''a'', MockRTCDataChannel 1),
                        (KStr ''b'', MockRTCDataChannel 2)]\<rparr>))"
  using on_close_idempotent
    [where L = example_lib and k = "KStr ''a''"
       and s = "\<lparr>connections = [(KStr ''a'', RTCPeerConnection), (KStr ''b'', RTCPeerConnection)],
                  data_channels = [(KStr ''a'', MockRTCDataChannel 1),
                                   (KStr ''b'', MockRTCDataChannel 2)]\<rparr>"]
  by (simp add: on_close_def key_eq_def)







section \<open>Properties of the diagnostic client\<close>

text \<open>
  C7, as the code has it. The connectivity probe is always started; the configuration
  probe only after the connectivity probe succeeded; the offer probe and the check for
  common issues only after the configuration probe returned a truthy configuration. The
  outcome of the offer probe has no influence on which probes are started.
\<close>

theorem diagnose_probes_started:
  "started (snd (diagnose_webrtc_issues P)) =
     (if \<not> test_server_connectivity P then [ServerConnectivity]
      else if \<not> truthy (test_config_endpoint P) then [ServerConnectivity, ConfigEndpoint]
      else [ServerConnectivity, ConfigEndpoint, WebRTCOfferEndpoint, CommonIssues])"
  by (simp add: diagnose_webrtc_issues_def Let_def split: option.splits)

theorem diagnose_probes_started_witness:
  "started (snd (diagnose_webrtc_issues
      \<lparr>test_server_connectivity = True,
       test_config_endpoint = JDict [(''rtc_configuration'', JDict [])],
       test_webrtc_offer_endpoint = False,
       check_common_issues = (\<lambda>c. None)\<rparr>))
   = [ServerConnectivity, ConfigEndpoint, WebRTCOfferEndpoint, CommonIssues]"
  using diagnose_probes_started
    [of "\<lparr>test_server_connectivity = True,
           test_config_endpoint = JDict [(''rtc_configuration'', JDict [])],
           test_webrtc_offer_endpoint = False,
           check_common_issues = (\<lambda>c. None)\<rparr>"]
  by simp

text \<open>
  C7, as the claim has it, fails: when the connectivity probe fails, no other probe is
  started.
\<close>

theorem diagnose_stops_counterexample:
  "started (snd (diagnose_webrtc_issues
      \<lparr>test_server_connectivity = False,
       test_config_endpoint = JDict [(''rtc_configuration'', JDict [])],
       test_webrtc_offer_endpoint = True,
       check_common_issues = (\<lambda>c. None)\<rparr>)) = [ServerConnectivity]"
  by (simp add: diagnose_webrtc_issues_def)

section \<open>Properties of the registry\<close>

text \<open>
  C8, as the code has it. When a session id already has a channel, \<^verbatim>\<open>on_datachannel\<close>
  replaces it by the new channel: the entry for the id is the new channel, the number of
  entries and \<^verbatim>\<open>connections\<close> do not change, and the only log record is the INFO line
  \<^verbatim>\<open>DataChannel established\<close>; no warning is logged.
\<close>

theorem on_datachannel_overwrites:
  assumes "dict_get k (data_channels s) = Some old"
  shows "dict_get k (data_channels (fst (on_datachannel k new s))) = Some new
       \<and> dict_len (data_channels (fst (on_datachannel k new s))) = dict_len (data_channels s)
       \<and> connections (fst (on_datachannel k new s)) = connections s
       \<and> snd (on_datachannel k new s) = [Log INFO (''DataChannel established: '' @ label new)]
       \<and> warnings (snd (on_datachannel k new s)) = []"
  using assms by (simp add: on_datachannel_def dict_set_get dict_set_len_same dict_len_def)

theorem on_datachannel_overwrites_witness:
  "map_option ident (dict_get (KStr ''a'') (data_channels (fst (on_datachannel (KStr ''a'')
      (MockRTCDataChannel 2)
      \<lparr>connections = [(KStr ''a'', RTCPeerConnection)],
       data_channels = [(KStr ''a'', MockRTCDataChannel 1)]\<rparr>)))) = Some 2
   \<and> snd (on_datachannel (KStr ''a'') (MockRTCDataChannel 2)
      \<lparr>connections = [(KStr ''a'', RTCPeerConnection)],
       data_channels = [(KStr ''a'', MockRTCDataChannel 1)]\<rparr>)
     = [Log INFO ''DataChannel established: test'']"
  using on_datachannel_overwrites
    [where k = "KStr ''a''" and new = "MockRTCDataChannel 2" and old = "MockRTCDataChannel 1"
       and s = "\<lparr>connections = [(KStr ''a'', RTCPeerConnection)],
                  data_channels = [(KStr ''a'', MockRTCDataChannel 1)]\<rparr>"]
  by simp

text \<open>
  C8, as the claim has it, fails: replacing the channel of session \<^verbatim>\<open>"a"\<close> logs no warning.
\<close>

theorem on_datachannel_counterexample:
  "warnings (snd (on_datachannel (KStr ''a'') (MockRTCDataChannel 2)
      \<lparr>connections = [(KStr ''a'', RTCPeerConnection)],
       data_channels = [(KStr ''a'', MockRTCDataChannel 1)]\<rparr>)) = []"
  by (simp add: on_datachannel_def)

text \<open>
  C9. Nothing removes an entry of \<^verbatim>\<open>connections\<close>. Along every sequence of requests and
  callbacks the number of entries does not decrease and every key stays; \<^verbatim>\<open>/status\<close>
  reports that number; \<^verbatim>\<open>on_close\<close> leaves \<^verbatim>\<open>connections\<close> alone; and an offer whose session
  id is accepted as a key but whose negotiation fails (the engine raises, or aiortc is
  absent) is answered with status 500 while its entry is in \<^verbatim>\<open>connections\<close>.
\<close>

theorem connections_never_shrink:
  "dict_len (connections s) \<le> dict_len (connections (run s evs))
   \<and> (\<forall>k. dict_contains k (connections s) \<longrightarrow> dict_contains k (connections (run s evs)))
   \<and> status_connections E s = Some (JInt (int (dict_len (connections s))))
   \<and> connections (fst (snd (on_close L k' s))) = connections s
   \<and> (\<forall>kvs kid.
         req_json req = Inr (JDict kvs)
         \<and> as_key (case map_of kvs ''webrtc_id'' of Some v \<Rightarrow> v | None \<Rightarrow> JStr (uuid4 E))
             = Some kid
         \<and> (\<not> AIORTC_AVAILABLE E
              \<or> (\<exists>e. negotiate E (case map_of kvs ''sdp'' of Some v \<Rightarrow> v | None \<Rightarrow> JNull)
                                  (case map_of kvs ''type'' of Some v \<Rightarrow> v | None \<Rightarrow> JNull)
                       = Inl e))
       \<longrightarrow> status (fst (handle_webrtc_offer E req s)) = 500
           \<and> dict_contains kid (connections (fst (snd (handle_webrtc_offer E req s)))))"
  using run_connections_len[of s evs] run_connections_keys[of _ s evs]
    status_connections_eq[of E s] on_close_connections[of L k' s]
    offer_entry_remains[of req _ E _ s]
  by blast

theorem connections_never_shrink_witness:
  "status (fst (handle_webrtc_offer example_env
      \<lparr>req_content_type = ''application/json'',
       req_json = Inr (JDict [(''webrtc_id'', JStr ''s1''), (''type'', JStr ''bogus'')])\<rparr>
      WebRTCTestServer)) = 500
   \<and> dict_contains (KStr ''s1'') (connections (fst (snd (handle_webrtc_offer example_env
      \<lparr>req_content_type = ''application/json'',
       req_json = Inr (JDict [(''webrtc_id'', JStr ''s1''), (''type'', JStr ''bogus'')])\<rparr>
      WebRTCTestServer))))
   \<and> dict_len (connections WebRTCTestServer)
      \<le> dict_len (connections (run WebRTCTestServer
           [(example_env, PostOffer
              \<lparr>req_content_type = ''application/json'',
               req_json = Inr (JDict [(''webrtc_id'', JStr ''s1''), (''type'', JStr ''bogus'')])\<rparr>),
            (example_env, ChannelClose (KStr ''s1''))]))"
  using connections_never_shrink
    [where s = WebRTCTestServer and E = example_env
       and req = "\<lparr>req_content_type = ''application/json'',
                    req_json = Inr (JDict [(''webrtc_id'', JStr ''s1''),
                                           (''type'', JStr ''bogus'')])\<rparr>"
       and evs = "[(example_env, PostOffer
              \<lparr>req_content_type = ''application/json'',
               req_json = Inr (JDict [(''webrtc_id'', JStr ''s1''), (''type'', JStr ''bogus'')])\<rparr>),
            (example_env, ChannelClose (KStr ''s1''))]"]
  by (simp add: WebRTCTestServer_def)



end
